theory Spec2Isabelle
  imports Main "HOL-Library.Multiset" "HOL-Library.Char_ord" "HOL-Library.List_Lexorder"
begin

section \<open>Python values and exceptions\<close>

text \<open>
  Raw conditions are untyped Python data (\<^verbatim>\<open>conditions: Any\<close>). The model covers
  \<^verbatim>\<open>None\<close>, integers, strings, lists and tuples. Booleans and floats are left out:
  Python compares them equal to integers (\<^verbatim>\<open>1 == True\<close>), so on them the structural
  equality of HOL would not be the equality that the insertion-ordered dictionary of
  \<^verbatim>\<open>parse_conditions\<close> uses. On the values below the two agree.
\<close>

datatype pyval =
    PNone
  | PInt int
  | PStr string
  | PList "pyval list"
  | PTuple "pyval list"

text \<open>
  Exceptions. \<^verbatim>\<open>InvalidConditionException(str(conditions))\<close> is raised with the text of
  the offending raw value; the model carries the raw value itself. \<open>CollaboratorError\<close>
  stands for whatever an external collaborator (dataset, plan builder, processor,
  execution strategy) raises.
\<close>

datatype error =
    InvalidConditionException pyval
  | AssertionError
  | KeyError
  | TypeError
  | AttributeError
  | CollaboratorError string

text \<open>\<^verbatim>\<open>not conditions\<close>: the truth value of a Python object.\<close>

fun py_truthy :: "pyval \<Rightarrow> bool" where
  "py_truthy PNone = False"
| "py_truthy (PInt i) = (i \<noteq> 0)"
| "py_truthy (PStr s) = (s \<noteq> [])"
| "py_truthy (PList xs) = (xs \<noteq> [])"
| "py_truthy (PTuple xs) = (xs \<noteq> [])"

text \<open>
  \<^verbatim>\<open>for cond in conditions\<close>: lists and tuples yield their elements, a string yields
  its characters as one-character strings, \<^verbatim>\<open>None\<close> and integers are not iterable.
\<close>

fun py_iter :: "pyval \<Rightarrow> error + pyval list" where
  "py_iter (PList xs) = Inr xs"
| "py_iter (PTuple xs) = Inr xs"
| "py_iter (PStr s) = Inr (map (\<lambda>c. PStr [c]) s)"
| "py_iter PNone = Inl TypeError"
| "py_iter (PInt i) = Inl TypeError"



fun is_tuple :: "pyval \<Rightarrow> bool" where
  "is_tuple (PTuple xs) = True"
| "is_tuple _ = False"

fun is_list_or_tuple :: "pyval \<Rightarrow> bool" where
  "is_list_or_tuple (PList xs) = True"
| "is_list_or_tuple (PTuple xs) = True"
| "is_list_or_tuple _ = False"

text \<open>Lists are unhashable, and so is a tuple that holds one.\<close>

fun py_hashable :: "pyval \<Rightarrow> bool" where
  "py_hashable (PList xs) = False"
| "py_hashable (PTuple xs) = list_all py_hashable xs"
| "py_hashable _ = True"

text \<open>
  \<^verbatim>\<open>x < y\<close>: integers by value, strings lexicographically, two lists (or two tuples) by
  their first differing element; every other pair raises \<^verbatim>\<open>TypeError\<close>.
\<close>

fun py_lt :: "pyval \<Rightarrow> pyval \<Rightarrow> error + bool"
  and py_lt_seq :: "pyval list \<Rightarrow> pyval list \<Rightarrow> error + bool" where
  "py_lt (PInt a) (PInt b) = Inr (a < b)"
| "py_lt (PStr a) (PStr b) = Inr (a < b)"
| "py_lt (PList xs) (PList ys) = py_lt_seq xs ys"
| "py_lt (PTuple xs) (PTuple ys) = py_lt_seq xs ys"
| "py_lt _ _ = Inl TypeError"
| "py_lt_seq [] [] = Inr False"
| "py_lt_seq [] (y # ys) = Inr True"
| "py_lt_seq (x # xs) [] = Inr False"
| "py_lt_seq (x # xs) (y # ys) = (if x = y then py_lt_seq xs ys else py_lt x y)"

text \<open>
  \<^verbatim>\<open>sorted(lit)\<close>: a stable comparison sort that uses \<^verbatim>\<open>x < y\<close> only and raises what a
  comparison raises. It is written as an insertion sort; where all elements are
  mutually comparable the result of a stable sort does not depend on the algorithm.
\<close>

fun py_insort :: "pyval \<Rightarrow> pyval list \<Rightarrow> error + pyval list" where
  "py_insort x [] = Inr [x]"
| "py_insort x (y # ys) =
     (case py_lt y x of
        Inl e \<Rightarrow> Inl e
      | Inr False \<Rightarrow> Inr (x # y # ys)
      | Inr True \<Rightarrow> (case py_insort x ys of Inl e \<Rightarrow> Inl e | Inr r \<Rightarrow> Inr (y # r)))"

fun py_sorted :: "pyval list \<Rightarrow> error + pyval list" where
  "py_sorted [] = Inr []"
| "py_sorted (x # xs) = (case py_sorted xs of Inl e \<Rightarrow> Inl e | Inr r \<Rightarrow> py_insort x r)"


section \<open>The expression AST\<close>

text \<open>
  Modelled from the spec: the node classes of \<^verbatim>\<open>snuba.query.expressions\<close> are not among
  the sources. The spec gives \<^verbatim>\<open>Column(alias?, name, table?)\<close>, \<^verbatim>\<open>Literal(alias?, value)\<close>,
  \<^verbatim>\<open>FunctionCall(alias?, name, ordered args)\<close>, \<^verbatim>\<open>Lambda(alias?, ordered parameter names, body)\<close>
  and \<^verbatim>\<open>Argument(alias?, name)\<close>.
\<close>

datatype expression =
    Column "string option" string "string option"
  | Literal "string option" pyval
  | FunctionCall "string option" string "expression list"
  | Lambda "string option" "string list" expression
  | Argument "string option" string

text \<open>
  Modelled from the spec: \<^verbatim>\<open>binary_condition\<close> of \<^verbatim>\<open>snuba.query.conditions\<close> is not among
  the sources. A BinaryCondition is a FunctionCall with exactly two arguments.
\<close>

definition binary_condition :: "string option \<Rightarrow> string \<Rightarrow> expression \<Rightarrow> expression \<Rightarrow> expression" where
  "binary_condition alias function_name lhs rhs = FunctionCall alias function_name [lhs, rhs]"

text \<open>
  What \<^verbatim>\<open>parse_conditions\<close> asks of a \<^verbatim>\<open>TExpression\<close> object: its truth value
  (\<^verbatim>\<open>if s\<close>) and whether it can be a dictionary key. Two objects are equal keys when
  they are structurally equal, as dataclass instances are.
\<close>

record 'e object_protocol =
  truthy :: "'e \<Rightarrow> bool"
  hashable :: "'e \<Rightarrow> bool"

text \<open>An expression is a frozen dataclass: hashable when every value it holds is.\<close>

fun expression_hashable :: "expression \<Rightarrow> bool" where
  "expression_hashable (Column a n t) = True"
| "expression_hashable (Literal a v) = py_hashable v"
| "expression_hashable (FunctionCall a n args) = list_all expression_hashable args"
| "expression_hashable (Lambda a ps body) = expression_hashable body"
| "expression_hashable (Argument a n) = True"

text \<open>
  Modelled from the spec: the expression classes are not among the sources; the spec
  drops only \<^verbatim>\<open>none\<close> children, so every expression object counts as true.
\<close>

definition Expression_protocol :: "expression object_protocol" where
  "Expression_protocol = \<lparr> truthy = (\<lambda>e. True), hashable = expression_hashable \<rparr>"

section \<open>Names imported by the condition parser\<close>

text \<open>
  \<^verbatim>\<open>conditions.py\<close> imports helpers and tables from modules that are not among the
  sources (\<^verbatim>\<open>snuba.util\<close>, \<^verbatim>\<open>snuba.query.conditions\<close>, \<^verbatim>\<open>snuba.query.schema\<close>,
  \<^verbatim>\<open>snuba.query.parser.functions\<close>). They are parameters of the model, collected in one
  record; every helper may raise.
\<close>

record module_env =
  is_condition :: "pyval \<Rightarrow> error + bool"
  is_function :: "pyval \<Rightarrow> nat \<Rightarrow> error + bool"
  parse_function_to_expr :: "pyval \<Rightarrow> error + expression"
  QUOTED_LITERAL_RE_match :: "string \<Rightarrow> bool"
  OPERATOR_TO_FUNCTION :: "string \<rightharpoonup> string"
  POSITIVE_OPERATORS :: "string list"
  BooleanFunctions_AND :: string
  BooleanFunctions_OR :: string

text \<open>The schema collaborator: column types and the dataset interface.\<close>

datatype column_type = Array column_type | Scalar string

record column =
  type :: column_type
  base_name :: "string option"

fun is_Array :: "column_type \<Rightarrow> bool" where
  "is_Array (Array t) = True"
| "is_Array (Scalar n) = False"

record dataset =
  process_condition :: "pyval \<Rightarrow> error + (pyval \<times> pyval \<times> pyval)"
  columns :: "string \<rightharpoonup> column"

section \<open>The condition parser\<close>

text \<open>
  The order that the spec asks of the keys: every value once, at the place of its first
  occurrence. \<open>OrderedDict_keys\<close> below is the loop of the source; that it computes
  \<open>first_seen\<close> is proved, not assumed.
\<close>

fun first_seen :: "'a list \<Rightarrow> 'a list" where
  "first_seen [] = []"
| "first_seen (x # xs) = x # filter (\<lambda>y. y \<noteq> x) (first_seen xs)"

text \<open>
  The insertion-ordered dictionary of the top level:
  \<^verbatim>\<open>OrderedDict((parse_conditions(..., cond, ...), None) for cond in conditions)\<close>.
  The generator is consumed one condition at a time: the condition is compiled (which
  may raise), the result is hashed (an unhashable key raises \<^verbatim>\<open>TypeError\<close>; \<^verbatim>\<open>None\<close>
  is hashable) and entered as a key unless an equal key is there already. The keys are
  kept in the order of their first insertion.
\<close>

fun OrderedDict_keys ::
  "'e object_protocol \<Rightarrow> (pyval \<Rightarrow> error + 'e option) \<Rightarrow> pyval list \<Rightarrow> 'e option list
     \<Rightarrow> error + 'e option list" where
  "OrderedDict_keys P f [] keys = Inr keys"
| "OrderedDict_keys P f (cond # conds) keys =
     (case f cond of
        Inl e \<Rightarrow> Inl e
      | Inr k \<Rightarrow>
          if (case k of None \<Rightarrow> False | Some s \<Rightarrow> \<not> hashable P s) then Inl TypeError
          else OrderedDict_keys P f conds (if k \<in> set keys then keys else keys @ [k]))"

text \<open>
  The generator of an OR group, \<^verbatim>\<open>(parse_conditions(..., cond, ...) for cond in conditions)\<close>,
  as the list comprehension consumes it: the results in order, up to the first exception.
\<close>

fun generator_results :: "(pyval \<Rightarrow> error + 'e option) \<Rightarrow> pyval list \<Rightarrow> error + 'e option list" where
  "generator_results f [] = Inr []"
| "generator_results f (cond # conds) =
     (case f cond of
        Inl e \<Rightarrow> Inl e
      | Inr s \<Rightarrow> (case generator_results f conds of Inl e \<Rightarrow> Inl e | Inr ss \<Rightarrow> Inr (s # ss)))"

text \<open>\<^verbatim>\<open>[s for s in ... if s]\<close>: \<^verbatim>\<open>None\<close> and false objects are dropped.\<close>

fun if_s :: "'e object_protocol \<Rightarrow> 'e option list \<Rightarrow> 'e list" where
  "if_s P [] = []"
| "if_s P (None # ss) = if_s P ss"
| "if_s P (Some s # ss) = (if truthy P s then s # if_s P ss else if_s P ss)"

text \<open>
  The leaf branch of \<^verbatim>\<open>parse_conditions\<close> (the body under \<^verbatim>\<open>elif is_condition(conditions)\<close>),
  which makes no recursive call. Its two tests are named: \<open>sort_in_literal\<close> is
  \<^verbatim>\<open>if op in ("IN", "NOT IN") and isinstance(lit, tuple): lit = tuple(sorted(lit))\<close>, and
  \<open>array_unpack_rule\<close> is the condition under which the array-unpack builder is called.
\<close>

definition sort_in_literal :: "pyval \<Rightarrow> pyval \<Rightarrow> error + pyval" where
  "sort_in_literal op lit =
     (if (op = PStr ''IN'' \<or> op = PStr ''NOT IN'') \<and> is_tuple lit
      then (case py_iter lit of
              Inl e \<Rightarrow> Inl e
            | Inr xs \<Rightarrow> map_sum id PTuple (py_sorted xs))
      else Inr lit)"

definition array_unpack_rule :: "dataset \<Rightarrow> string option \<Rightarrow> pyval \<Rightarrow> pyval \<Rightarrow> bool" where
  "array_unpack_rule dataset array_join lhs lit =
     (case lhs of
        PStr name \<Rightarrow>
          (case columns dataset name of
             None \<Rightarrow> False
           | Some c \<Rightarrow> is_Array (type c) \<and> base_name c \<noteq> array_join \<and> \<not> is_list_or_tuple lit)
      | _ \<Rightarrow> False)"

definition parse_simple_condition ::
  "(pyval \<Rightarrow> error + 'e) \<Rightarrow> ('e \<Rightarrow> pyval \<Rightarrow> pyval \<Rightarrow> error + 'e) \<Rightarrow> ('e \<Rightarrow> pyval \<Rightarrow> pyval \<Rightarrow> error + 'e)
     \<Rightarrow> dataset \<Rightarrow> pyval \<Rightarrow> string option \<Rightarrow> error + 'e option" where
  "parse_simple_condition operand_builder unpack_array_condition_builder simple_condition_builder
       dataset conditions array_join =
     (case process_condition dataset conditions of
        Inl e \<Rightarrow> Inl e
      | Inr (lhs, op, lit0) \<Rightarrow>
          (case sort_in_literal op lit0 of
             Inl e \<Rightarrow> Inl e
           | Inr lit \<Rightarrow>
               if array_unpack_rule dataset array_join lhs lit
               then (case operand_builder lhs of
                       Inl e \<Rightarrow> Inl e
                     | Inr l \<Rightarrow> map_sum id Some (unpack_array_condition_builder l op lit))
               else (case operand_builder lhs of
                       Inl e \<Rightarrow> Inl e
                     | Inr l \<Rightarrow> map_sum id Some (simple_condition_builder l op lit))))"

function parse_conditions ::
  "'e object_protocol \<Rightarrow> module_env
     \<Rightarrow> (pyval \<Rightarrow> error + 'e) \<Rightarrow> ('e list \<Rightarrow> error + 'e option) \<Rightarrow> ('e list \<Rightarrow> error + 'e option)
     \<Rightarrow> ('e \<Rightarrow> pyval \<Rightarrow> pyval \<Rightarrow> error + 'e) \<Rightarrow> ('e \<Rightarrow> pyval \<Rightarrow> pyval \<Rightarrow> error + 'e)
     \<Rightarrow> dataset \<Rightarrow> pyval \<Rightarrow> string option \<Rightarrow> nat \<Rightarrow> error + 'e option" where
  "parse_conditions P I operand_builder and_builder or_builder unpack_array_condition_builder
       simple_condition_builder dataset conditions array_join depth =
     (if \<not> py_truthy conditions then Inr None
      else if depth = 0 then
        (case py_iter conditions of
           Inl e \<Rightarrow> Inl e
         | Inr conds \<Rightarrow>
             (case OrderedDict_keys P
                     (\<lambda>cond. parse_conditions P I operand_builder and_builder or_builder
                        unpack_array_condition_builder simple_condition_builder dataset cond
                        array_join (depth + 1))
                     conds [] of
                Inl e \<Rightarrow> Inl e
              | Inr sub \<Rightarrow> and_builder (if_s P sub)))
      else
        (case is_condition I conditions of
           Inl e \<Rightarrow> Inl e
         | Inr True \<Rightarrow>
             parse_simple_condition operand_builder unpack_array_condition_builder
               simple_condition_builder dataset conditions array_join
         | Inr False \<Rightarrow>
             if depth = 1 then
               (case py_iter conditions of
                  Inl e \<Rightarrow> Inl e
                | Inr conds \<Rightarrow>
                    (case generator_results
                            (\<lambda>cond. parse_conditions P I operand_builder and_builder or_builder
                               unpack_array_condition_builder simple_condition_builder dataset cond
                               array_join (depth + 1))
                            conds of
                       Inl e \<Rightarrow> Inl e
                     | Inr sub \<Rightarrow> or_builder (if_s P sub)))
             else Inl (InvalidConditionException conditions)))"
  by pat_completeness auto
termination
  by (relation "measure (\<lambda>(P, I, ob, ab, orb, ub, sb, ds, c, aj, depth). 2 - depth)") auto

declare parse_conditions.simps [simp del]

section \<open>The expression builders\<close>

text \<open>The closures of \<^verbatim>\<open>parse_conditions_to_expr\<close>, with the imported names as a parameter.\<close>

definition operand_builder :: "module_env \<Rightarrow> pyval \<Rightarrow> error + expression" where
  "operand_builder I val =
     (case is_function I val 0 of
        Inl e \<Rightarrow> Inl e
      | Inr True \<Rightarrow> parse_function_to_expr I val
      | Inr False \<Rightarrow>
          (case val of
             PStr s \<Rightarrow>
               if QUOTED_LITERAL_RE_match I s then Inr (Literal None (PStr (butlast (tl s))))
               else Inr (Column None s None)
           | _ \<Rightarrow> Inl TypeError))"

fun multi_expression_builder :: "expression list \<Rightarrow> string \<Rightarrow> error + expression" where
  "multi_expression_builder [] function = Inl AssertionError"
| "multi_expression_builder [e] function = Inr e"
| "multi_expression_builder (e # es) function =
     (case multi_expression_builder es function of
        Inl x \<Rightarrow> Inl x
      | Inr r \<Rightarrow> Inr (binary_condition None function e r))"

definition and_builder :: "module_env \<Rightarrow> expression list \<Rightarrow> error + expression option" where
  "and_builder I expressions =
     (if expressions = [] then Inr None
      else map_sum id Some (multi_expression_builder expressions (BooleanFunctions_AND I)))"

definition or_builder :: "module_env \<Rightarrow> expression list \<Rightarrow> error + expression option" where
  "or_builder I expressions =
     (if expressions = [] then Inr None
      else map_sum id Some (multi_expression_builder expressions (BooleanFunctions_OR I)))"

text \<open>
  \<^verbatim>\<open>OPERATOR_TO_FUNCTION[op]\<close>: a dictionary lookup, which raises \<^verbatim>\<open>TypeError\<close> on an
  unhashable key and \<^verbatim>\<open>KeyError\<close> on a missing one.
\<close>

definition operator_function :: "module_env \<Rightarrow> pyval \<Rightarrow> error + string" where
  "operator_function I op =
     (if \<not> py_hashable op then Inl TypeError
      else (case op of
              PStr s \<Rightarrow> (case OPERATOR_TO_FUNCTION I s of None \<Rightarrow> Inl KeyError | Some f \<Rightarrow> Inr f)
            | _ \<Rightarrow> Inl KeyError))"

definition preprocess_literal :: "pyval \<Rightarrow> pyval \<Rightarrow> error + expression" where
  "preprocess_literal op literal =
     (if is_list_or_tuple literal then
        (if op = PStr ''IN'' \<or> op = PStr ''NOT IN''
         then (case py_iter literal of
                 Inl e \<Rightarrow> Inl e
               | Inr ls \<Rightarrow> Inr (FunctionCall None ''tuple'' (map (Literal None) ls)))
         else Inl AssertionError)
      else
        (if op = PStr ''IN'' \<or> op = PStr ''NOT IN'' then Inl AssertionError
         else Inr (Literal None literal)))"

definition unpack_array_condition_builder ::
  "module_env \<Rightarrow> expression \<Rightarrow> pyval \<Rightarrow> pyval \<Rightarrow> error + expression" where
  "unpack_array_condition_builder I lhs op literal =
     (let function_name =
            (if op \<in> set (map PStr (POSITIVE_OPERATORS I)) then ''arrayExists'' else ''arrayAll'')
      in case operator_function I op of
           Inl e \<Rightarrow> Inl e
         | Inr f \<Rightarrow>
             (case preprocess_literal op literal of
                Inl e \<Rightarrow> Inl e
              | Inr rhs \<Rightarrow>
                  Inr (FunctionCall None function_name
                         [Lambda None [''x'']
                            (FunctionCall None ''assumeNotNull''
                               [FunctionCall None f [Argument None ''x'', rhs]]),
                          lhs])))"

definition simple_condition_builder ::
  "module_env \<Rightarrow> expression \<Rightarrow> pyval \<Rightarrow> pyval \<Rightarrow> error + expression" where
  "simple_condition_builder I lhs op literal =
     (case operator_function I op of
        Inl e \<Rightarrow> Inl e
      | Inr f \<Rightarrow>
          (case preprocess_literal op literal of
             Inl e \<Rightarrow> Inl e
           | Inr rhs \<Rightarrow> Inr (binary_condition None f lhs rhs)))"

definition parse_conditions_to_expr ::
  "module_env \<Rightarrow> pyval \<Rightarrow> dataset \<Rightarrow> string option \<Rightarrow> error + expression option" where
  "parse_conditions_to_expr I expr dataset arrayjoin =
     parse_conditions Expression_protocol I (operand_builder I) (and_builder I) (or_builder I)
       (unpack_array_condition_builder I) (simple_condition_builder I) dataset expr arrayjoin 0"

section \<open>An instance of the imported names\<close>

text \<open>
  Modelled from the spec: \<^verbatim>\<open>is_condition\<close> of \<^verbatim>\<open>snuba.util\<close> is not among the sources.
  The spec calls a simple condition a 3-tuple \<^verbatim>\<open>(lhs, operator, rhs)\<close>; here it is a
  tuple or list of three elements whose second is a surface operator of the
  operator-to-function mapping.
\<close>

fun is_condition_spec :: "(string \<rightharpoonup> string) \<Rightarrow> pyval \<Rightarrow> error + bool" where
  "is_condition_spec m (PTuple [lhs, PStr op, rhs]) = Inr (op \<in> dom m)"
| "is_condition_spec m (PList [lhs, PStr op, rhs]) = Inr (op \<in> dom m)"
| "is_condition_spec m _ = Inr False"

text \<open>
  Modelled from the spec: the tables of \<^verbatim>\<open>snuba.query.conditions\<close> and \<^verbatim>\<open>snuba.query.schema\<close>
  are not among the sources. The instance below is used to run the parser on concrete
  inputs: the function names \<^verbatim>\<open>equals\<close> and \<^verbatim>\<open>notEquals\<close> and the boolean functions
  \<^verbatim>\<open>AND\<close> and \<^verbatim>\<open>OR\<close> are the spec's, \<^verbatim>\<open>notLike\<close> is the one of the comment in
  \<^verbatim>\<open>unpack_array_condition_builder\<close>, and the positive operators are those the comment
  in \<^verbatim>\<open>parse_conditions\<close> lists (\<^verbatim>\<open>IN\<close>, \<^verbatim>\<open>=\<close>, \<^verbatim>\<open>LIKE\<close>). An operand is a quoted literal
  when it starts and ends with a single quote; no operand is a function call.
\<close>

definition example_operators :: "string \<rightharpoonup> string" where
  "example_operators =
     [''='' \<mapsto> ''equals'', ''!='' \<mapsto> ''notEquals'', ''IN'' \<mapsto> ''in'', ''NOT IN'' \<mapsto> ''notIn'',
      ''LIKE'' \<mapsto> ''like'', ''NOT LIKE'' \<mapsto> ''notLike'']"

definition example_env :: module_env where
  "example_env =
     \<lparr> is_condition = is_condition_spec example_operators,
       is_function = (\<lambda>val depth. Inr False),
       parse_function_to_expr = (\<lambda>val. Inl (CollaboratorError ''parse_function_to_expr'')),
       QUOTED_LITERAL_RE_match =
         (\<lambda>s. 2 \<le> length s \<and> hd s = CHR 0x27 \<and> last s = CHR 0x27),
       OPERATOR_TO_FUNCTION = example_operators,
       POSITIVE_OPERATORS = [''IN'', ''='', ''LIKE''],
       BooleanFunctions_AND = ''AND'',
       BooleanFunctions_OR = ''OR'' \<rparr>"

text \<open>
  A dataset whose \<^verbatim>\<open>process_condition\<close> hands the condition back unchanged, with an
  array column \<^verbatim>\<open>tags\<close> (array-join base name \<^verbatim>\<open>tags\<close>).
\<close>

fun unchanged_condition :: "pyval \<Rightarrow> error + (pyval \<times> pyval \<times> pyval)" where
  "unchanged_condition (PTuple [lhs, op, rhs]) = Inr (lhs, op, rhs)"
| "unchanged_condition (PList [lhs, op, rhs]) = Inr (lhs, op, rhs)"
| "unchanged_condition _ = Inl (CollaboratorError ''process_condition'')"

definition example_dataset :: dataset where
  "example_dataset =
     \<lparr> process_condition = unchanged_condition,
       columns = [''tags'' \<mapsto> \<lparr> type = Array (Scalar ''String''), base_name = Some ''tags'' \<rparr>,
                  ''a'' \<mapsto> \<lparr> type = Scalar ''UInt64'', base_name = None \<rparr>] \<rparr>"

section \<open>The query pipeline\<close>

text \<open>
  Modelled from the spec: the classes \<^verbatim>\<open>Request\<close> and \<^verbatim>\<open>ClickhouseQueryPlan\<close> are not among
  the sources. A request holds the raw query and the execution settings; a query plan
  holds the compiled query, an execution strategy and its ordered plan processors. A
  processor is known by its name and mutates its argument in place; it is a function
  to the state it leaves behind and the exception it raised, if any.
\<close>

record ('b, 's) request =
  raw_query :: 'b
  settings :: 's

type_synonym ('b, 's) entity_processor = "string \<times> (('b, 's) request \<Rightarrow> error option \<times> ('b, 's) request)"

type_synonym ('q, 's) plan_processor = "string \<times> ('q \<Rightarrow> 's \<Rightarrow> error option \<times> 'q)"

record ('q, 's, 'r, 'a) query_plan_object =
  query :: 'q
  execution_strategy :: "'q \<Rightarrow> 's \<Rightarrow> 'r \<Rightarrow> error + 'a"
  plan_processors :: "('q, 's) plan_processor list"

text \<open>
  The order of the calls is observed on a trace, which every stage extends when it is
  invoked. The execution strategy is recorded with the query it is given.
\<close>

datatype 'q event =
    EntityProcessor string
  | BuildPlan
  | PlanProcessor string
  | ExecutionStrategy 'q

text \<open>
  Modelled from the spec: \<^verbatim>\<open>_execute_entity_processors\<close> of \<^verbatim>\<open>snuba.pipeline.processors\<close> is
  not among the sources. The entity processors run against the request strictly in
  registration order and each may mutate it in place; a failing processor aborts, and
  the request is left as that processor left it. The processors that the request's
  entity registers are a parameter.
\<close>

fun execute_entity_processors ::
  "('b, 's) entity_processor list \<Rightarrow> ('b, 's) request \<Rightarrow> 'q event list
     \<Rightarrow> error option \<times> ('b, 's) request \<times> 'q event list" where
  "execute_entity_processors [] request tr = (None, request, tr)"
| "execute_entity_processors ((name, process) # processors) request tr =
     (case process request of
        (Some e, request') \<Rightarrow> (Some e, request', tr @ [EntityProcessor name])
      | (None, request') \<Rightarrow> execute_entity_processors processors request' (tr @ [EntityProcessor name]))"

text \<open>
  Modelled from the spec: \<^verbatim>\<open>_execute_query_plan_processors\<close> of \<^verbatim>\<open>snuba.pipeline.processors\<close>
  is not among the sources. The plan processors run against the built plan's query
  (with the request's settings), in order, in place and fail-fast.
\<close>

fun execute_query_plan_processors_loop ::
  "('q, 's) plan_processor list \<Rightarrow> 'q \<Rightarrow> 's \<Rightarrow> 'q event list \<Rightarrow> error option \<times> 'q \<times> 'q event list" where
  "execute_query_plan_processors_loop [] q st tr = (None, q, tr)"
| "execute_query_plan_processors_loop ((name, process) # processors) q st tr =
     (case process q st of
        (Some e, q') \<Rightarrow> (Some e, q', tr @ [PlanProcessor name])
      | (None, q') \<Rightarrow> execute_query_plan_processors_loop processors q' st (tr @ [PlanProcessor name]))"

definition execute_query_plan_processors ::
  "('q, 's, 'r, 'a) query_plan_object \<Rightarrow> ('b, 's) request \<Rightarrow> 'q event list
     \<Rightarrow> error option \<times> ('q, 's, 'r, 'a) query_plan_object \<times> 'q event list" where
  "execute_query_plan_processors query_plan request tr =
     (case execute_query_plan_processors_loop (plan_processors query_plan) (query query_plan)
             (settings request) tr of
        (err, q', tr') \<Rightarrow> (err, query_plan\<lparr>query := q'\<rparr>, tr'))"

text \<open>
  The pipeline object. \<open>self_query_plan\<close> is the attribute \<^verbatim>\<open>self.__query_plan\<close>: \<open>None\<close>
  while the attribute does not exist, otherwise the plan object it refers to, in its
  current state (processors that mutate the plan in place update it here). \<open>trace\<close>
  is the observation of the calls made so far.
\<close>

record ('b, 's, 'q, 'r, 'a) SimplePipeline =
  self_request :: "('b, 's) request"
  self_runner :: 'r
  self_query_plan_builder :: "('b, 's) request \<Rightarrow> error + ('q, 's, 'r, 'a) query_plan_object"
  self_query_plan :: "('q, 's, 'r, 'a) query_plan_object option"
  trace :: "'q event list"

definition SimplePipeline_init ::
  "('b, 's) request \<Rightarrow> 'r \<Rightarrow> (('b, 's) request \<Rightarrow> error + ('q, 's, 'r, 'a) query_plan_object)
     \<Rightarrow> ('b, 's, 'q, 'r, 'a) SimplePipeline" where
  "SimplePipeline_init request runner query_plan_builder =
     \<lparr> self_request = request, self_runner = runner,
       self_query_plan_builder = query_plan_builder, self_query_plan = None, trace = [] \<rparr>"

definition execute ::
  "('b, 's) entity_processor list \<Rightarrow> ('b, 's, 'q, 'r, 'a) SimplePipeline
     \<Rightarrow> (error + 'a) \<times> ('b, 's, 'q, 'r, 'a) SimplePipeline" where
  "execute entity_processors self =
     (case execute_entity_processors entity_processors (self_request self) (trace self) of
        (Some e, request', tr) \<Rightarrow> (Inl e, self\<lparr>self_request := request', trace := tr\<rparr>)
      | (None, request', tr) \<Rightarrow>
          (let self1 = self\<lparr>self_request := request', trace := tr @ [BuildPlan]\<rparr> in
           case self_query_plan_builder self1 (self_request self1) of
             Inl e \<Rightarrow> (Inl e, self1)
           | Inr plan \<Rightarrow>
               (let self2 = self1\<lparr>self_query_plan := Some plan\<rparr> in
                case execute_query_plan_processors plan (self_request self2) (trace self2) of
                  (Some e, plan', tr') \<Rightarrow> (Inl e, self2\<lparr>self_query_plan := Some plan', trace := tr'\<rparr>)
                | (None, plan', tr') \<Rightarrow>
                    (let self3 = self2\<lparr>self_query_plan := Some plan',
                                        trace := tr' @ [ExecutionStrategy (query plan')]\<rparr>
                     in (execution_strategy plan' (query plan') (settings (self_request self3))
                           (self_runner self3),
                         self3)))))"

text \<open>The property \<^verbatim>\<open>query_plan\<close>: reading an attribute that was never assigned raises.\<close>

definition query_plan ::
  "('b, 's, 'q, 'r, 'a) SimplePipeline \<Rightarrow> error + ('q, 's, 'r, 'a) query_plan_object" where
  "query_plan self = (case self_query_plan self of None \<Rightarrow> Inl AttributeError | Some plan \<Rightarrow> Inr plan)"

text \<open>
  A pipeline to run on: a request whose raw query counts the entity processors that
  have run, two entity processors that succeed, one that raises, one that succeeds on
  a fresh request only, and a plan builder whose plan has the plan processor \<open>P3\<close>.
\<close>

definition example_request :: "(nat, string) request" where
  "example_request = \<lparr> raw_query = 0, settings = ''settings'' \<rparr>"

definition P1 :: "(nat, string) entity_processor" where
  "P1 = (''P1'', \<lambda>r. (None, r\<lparr>raw_query := raw_query r + 1\<rparr>))"

definition P2 :: "(nat, string) entity_processor" where
  "P2 = (''P2'', \<lambda>r. (None, r\<lparr>raw_query := raw_query r + 1\<rparr>))"

definition P1_raising :: "(nat, string) entity_processor" where
  "P1_raising = (''P1'', \<lambda>r. (Some (CollaboratorError ''P1''), r))"

definition P1_once :: "(nat, string) entity_processor" where
  "P1_once =
     (''P1'', \<lambda>r. if raw_query r = 0 then (None, r\<lparr>raw_query := 1\<rparr>)
                   else (Some (CollaboratorError ''P1''), r))"

definition P3 :: "(string, string) plan_processor" where
  "P3 = (''P3'', \<lambda>q st. (None, q @ '' processed''))"

definition example_plan :: "(string, string, string, string) query_plan_object" where
  "example_plan =
     \<lparr> query = ''query'',
       execution_strategy = (\<lambda>q st runner. Inr (''result of '' @ q)),
       plan_processors = [P3] \<rparr>"

definition example_pipeline :: "(nat, string, string, string, string) SimplePipeline" where
  "example_pipeline = SimplePipeline_init example_request ''runner'' (\<lambda>r. Inr example_plan)"

section \<open>Facts about the condition parser\<close>

subsection \<open>The branches of \<open>parse_conditions\<close>\<close>

lemma parse_conditions_falsy:
  "\<not> py_truthy conditions \<Longrightarrow>
   parse_conditions P I ob ab orb ub sb ds conditions aj depth = Inr None"
  by (subst parse_conditions.simps) simp

lemma parse_conditions_top:
  "py_truthy conditions \<Longrightarrow>
   parse_conditions P I ob ab orb ub sb ds conditions aj 0 =
     (case py_iter conditions of
        Inl e \<Rightarrow> Inl e
      | Inr conds \<Rightarrow>
          (case OrderedDict_keys P
                  (\<lambda>cond. parse_conditions P I ob ab orb ub sb ds cond aj (Suc 0)) conds [] of
             Inl e \<Rightarrow> Inl e
           | Inr sub \<Rightarrow> ab (if_s P sub)))"
  by (subst parse_conditions.simps) (simp cong: sum.case_cong)

lemma parse_conditions_leaf:
  "py_truthy conditions \<Longrightarrow> 1 \<le> depth \<Longrightarrow> is_condition I conditions = Inr True \<Longrightarrow>
   parse_conditions P I ob ab orb ub sb ds conditions aj depth =
     parse_simple_condition ob ub sb ds conditions aj"
  by (subst parse_conditions.simps) simp

lemma parse_conditions_or_group:
  "py_truthy conditions \<Longrightarrow> is_condition I conditions = Inr False \<Longrightarrow>
   parse_conditions P I ob ab orb ub sb ds conditions aj (Suc 0) =
     (case py_iter conditions of
        Inl e \<Rightarrow> Inl e
      | Inr conds \<Rightarrow>
          (case generator_results
                  (\<lambda>cond. parse_conditions P I ob ab orb ub sb ds cond aj (Suc (Suc 0))) conds of
             Inl e \<Rightarrow> Inl e
           | Inr sub \<Rightarrow> orb (if_s P sub)))"
  by (subst parse_conditions.simps) (simp cong: sum.case_cong)

lemma parse_conditions_invalid:
  "py_truthy conditions \<Longrightarrow> 1 < depth \<Longrightarrow> is_condition I conditions = Inr False \<Longrightarrow>
   parse_conditions P I ob ab orb ub sb ds conditions aj depth =
     Inl (InvalidConditionException conditions)"
  by (subst parse_conditions.simps) simp

lemma py_iter_Cons_truthy: "py_iter v = Inr (x # xs) \<Longrightarrow> py_truthy v"
  by (cases v) auto

lemma parse_simple_condition_eq:
  "process_condition ds c = Inr (lhs, op, lit0) \<Longrightarrow> sort_in_literal op lit0 = Inr lit \<Longrightarrow>
   parse_simple_condition ob ub sb ds c aj =
     (case ob lhs of
        Inl e \<Rightarrow> Inl e
      | Inr l \<Rightarrow> map_sum id Some ((if array_unpack_rule ds aj lhs lit then ub else sb) l op lit))"
  by (simp add: parse_simple_condition_def)

lemma sort_in_literal_scalar: "\<not> is_list_or_tuple lit \<Longrightarrow> sort_in_literal op lit = Inr lit"
  by (cases lit) (simp_all add: sort_in_literal_def)


subsection \<open>The keys of the insertion-ordered dictionary\<close>

lemma set_first_seen: "set (first_seen xs) = set xs"
  by (induction xs) auto

lemma distinct_first_seen: "distinct (first_seen xs)"
  by (induction xs) auto

lemma first_seen_append:
  "first_seen (xs @ ys) = first_seen xs @ filter (\<lambda>y. y \<notin> set xs) (first_seen ys)"
proof (induction xs)
  case Nil
  then show ?case by simp
next
  case (Cons a xs)
  have "filter (\<lambda>y. y \<noteq> a) (filter (\<lambda>y. y \<notin> set xs) (first_seen ys)) =
        filter (\<lambda>y. y \<notin> set (a # xs)) (first_seen ys)"
    by (auto intro: filter_cong)
  with Cons show ?case by simp
qed

lemma first_seen_snoc:
  "first_seen (xs @ [x]) = (if x \<in> set xs then first_seen xs else first_seen xs @ [x])"
  by (simp add: first_seen_append)

lemma OrderedDict_keys_results:
  "map f conds = map Inr ks \<Longrightarrow> \<forall>s. Some s \<in> set ks \<longrightarrow> hashable P s \<Longrightarrow>
   OrderedDict_keys P f conds keys = Inr (keys @ filter (\<lambda>k. k \<notin> set keys) (first_seen ks))"
proof (induction conds arbitrary: ks keys)
  case Nil
  then show ?case by simp
next
  case (Cons c conds)
  then obtain k ks' where ks: "ks = k # ks'" "f c = Inr k" "map f conds = map Inr ks'"
    by (cases ks) auto
  have hk: "\<not> (case k of None \<Rightarrow> False | Some s \<Rightarrow> \<not> hashable P s)"
    using Cons.prems(2) ks(1) by (cases k) auto
  have h': "\<forall>s. Some s \<in> set ks' \<longrightarrow> hashable P s"
    using Cons.prems(2) ks(1) by auto
  show ?case
  proof (cases "k \<in> set keys")
    case True
    have "filter (\<lambda>x. x \<notin> set keys) (filter (\<lambda>y. y \<noteq> k) (first_seen ks')) =
          filter (\<lambda>x. x \<notin> set keys) (first_seen ks')"
      using True by (auto intro: filter_cong)
    with True show ?thesis
      using Cons.IH[OF ks(3) h', of keys] hk ks by simp
  next
    case False
    have "filter (\<lambda>x. x \<notin> set (keys @ [k])) (first_seen ks') =
          filter (\<lambda>x. x \<notin> set keys) (filter (\<lambda>y. y \<noteq> k) (first_seen ks'))"
      by (auto intro: filter_cong)
    with False show ?thesis
      using Cons.IH[OF ks(3) h', of "keys @ [k]"] hk ks by simp
  qed
qed


lemma generator_results_results:
  "map f conds = map Inr ks \<Longrightarrow> generator_results f conds = Inr ks"
proof (induction conds arbitrary: ks)
  case Nil
  then show ?case by simp
next
  case (Cons c conds)
  then obtain k ks' where "ks = k # ks'" "f c = Inr k" "map f conds = map Inr ks'"
    by (cases ks) auto
  with Cons.IH[of ks'] show ?case by simp
qed

lemma if_s_all_None: "\<forall>k \<in> set ks. k = None \<Longrightarrow> if_s P ks = []"
  by (induction P ks rule: if_s.induct) auto

lemma if_s_Expression:
  "if_s Expression_protocol ks = map the (filter (\<lambda>k. k \<noteq> None) ks)"
  by (induction Expression_protocol ks rule: if_s.induct) (auto simp: Expression_protocol_def)

section \<open>The AND/OR builders\<close>

lemma multi_expression_builder_foldr:
  "es \<noteq> [] \<Longrightarrow>
   multi_expression_builder es f =
     Inr (foldr (\<lambda>x acc. FunctionCall None f [x, acc]) (butlast es) (last es))"
proof (induction es f rule: multi_expression_builder.induct)
  case (3 e e' es f)
  then show ?case by (simp add: binary_condition_def)
qed simp_all

text \<open>
  C7. The AND and OR builders yield \<^verbatim>\<open>None\<close> on the empty list, hand a single expression
  back unchanged, and combine a non-empty list right-associatively into nested binary
  function calls: the first expression with the combination of the rest, which is the
  right fold of the binary call over the list, ending in its last element.
\<close>

theorem and_or_builder_right_associative:
  "and_builder I [] = Inr None \<and> or_builder I [] = Inr None \<and>
   and_builder I [e] = Inr (Some e) \<and> or_builder I [e] = Inr (Some e) \<and>
   (es \<noteq> [] \<longrightarrow>
      and_builder I es =
        Inr (Some (foldr (\<lambda>x acc. FunctionCall None (BooleanFunctions_AND I) [x, acc])
                     (butlast es) (last es))) \<and>
      or_builder I es =
        Inr (Some (foldr (\<lambda>x acc. FunctionCall None (BooleanFunctions_OR I) [x, acc])
                     (butlast es) (last es)))) \<and>
   (and_builder I (e2 # es') = Inr (Some r) \<longrightarrow>
      and_builder I (e1 # e2 # es') = Inr (Some (FunctionCall None (BooleanFunctions_AND I) [e1, r]))) \<and>
   (or_builder I (e2 # es') = Inr (Some r) \<longrightarrow>
      or_builder I (e1 # e2 # es') = Inr (Some (FunctionCall None (BooleanFunctions_OR I) [e1, r])))"
  by (auto simp: and_builder_def or_builder_def multi_expression_builder_foldr binary_condition_def
           split: sum.splits)

theorem and_or_builder_right_associative_witness:
  "and_builder example_env [Column None ''a'' None, Column None ''b'' None, Column None ''c'' None] =
     Inr (Some (FunctionCall None ''AND''
       [Column None ''a'' None, FunctionCall None ''AND'' [Column None ''b'' None, Column None ''c'' None]])) \<and>
   or_builder example_env [Column None ''a'' None, Column None ''b'' None, Column None ''c'' None] =
     Inr (Some (FunctionCall None ''OR''
       [Column None ''a'' None, FunctionCall None ''OR'' [Column None ''b'' None, Column None ''c'' None]]))"
  using and_or_builder_right_associative
    [where I = example_env
       and es = "[Column None ''a'' None, Column None ''b'' None, Column None ''c'' None]"]
  by (simp add: example_env_def)

section \<open>The simple-condition builder\<close>

text \<open>
  C8. For an operator that the mapping knows, the simple-condition builder packages a
  list or tuple literal as a \<^verbatim>\<open>tuple\<close> call over one Literal per element when the
  operator is \<^verbatim>\<open>IN\<close> or \<^verbatim>\<open>NOT IN\<close>, and a scalar literal as a plain Literal when it is
  neither. A list or tuple with any other operator, and a scalar with \<^verbatim>\<open>IN\<close> or
  \<^verbatim>\<open>NOT IN\<close>, make the builder raise (the assertion of \<^verbatim>\<open>preprocess_literal\<close> fails);
  nothing is coerced.
\<close>

theorem simple_condition_builder_literal_contract:
  "(operator_function I op = Inr f \<and> is_list_or_tuple literal \<and> py_iter literal = Inr ls \<and>
    (op = PStr ''IN'' \<or> op = PStr ''NOT IN'') \<longrightarrow>
      simple_condition_builder I lhs op literal =
        Inr (FunctionCall None f [lhs, FunctionCall None ''tuple'' (map (Literal None) ls)])) \<and>
   (operator_function I op = Inr f \<and> \<not> is_list_or_tuple literal \<and>
    op \<noteq> PStr ''IN'' \<and> op \<noteq> PStr ''NOT IN'' \<longrightarrow>
      simple_condition_builder I lhs op literal = Inr (FunctionCall None f [lhs, Literal None literal])) \<and>
   (is_list_or_tuple literal \<and> op \<noteq> PStr ''IN'' \<and> op \<noteq> PStr ''NOT IN'' \<longrightarrow>
      (\<exists>e. simple_condition_builder I lhs op literal = Inl e) \<and>
      preprocess_literal op literal = Inl AssertionError) \<and>
   (\<not> is_list_or_tuple literal \<and> (op = PStr ''IN'' \<or> op = PStr ''NOT IN'') \<longrightarrow>
      (\<exists>e. simple_condition_builder I lhs op literal = Inl e) \<and>
      preprocess_literal op literal = Inl AssertionError)"
  by (auto simp: simple_condition_builder_def preprocess_literal_def binary_condition_def
           split: sum.splits)

theorem simple_condition_builder_literal_contract_witness:
  "simple_condition_builder example_env (Column None ''a'' None) (PStr ''IN'') (PTuple [PInt 1, PInt 2]) =
     Inr (FunctionCall None ''in''
            [Column None ''a'' None, FunctionCall None ''tuple'' [Literal None (PInt 1), Literal None (PInt 2)]]) \<and>
   simple_condition_builder example_env (Column None ''a'' None) (PStr ''='') (PInt 1) =
     Inr (FunctionCall None ''equals'' [Column None ''a'' None, Literal None (PInt 1)]) \<and>
   simple_condition_builder example_env (Column None ''a'' None) (PStr ''='') (PList [PInt 1]) =
     Inl AssertionError \<and>
   simple_condition_builder example_env (Column None ''a'' None) (PStr ''IN'') (PInt 1) =
     Inl AssertionError"
proof -
  have ops: "operator_function example_env (PStr ''IN'') = Inr ''in''"
    "operator_function example_env (PStr ''='') = Inr ''equals''"
    by code_simp+
  show ?thesis
    using simple_condition_builder_literal_contract
      [where I = example_env and op = "PStr ''IN''" and f = "''in''"
         and literal = "PTuple [PInt 1, PInt 2]" and ls = "[PInt 1, PInt 2]"
         and lhs = "Column None ''a'' None"]
      simple_condition_builder_literal_contract
      [where I = example_env and op = "PStr ''=''" and f = "''equals''"
         and literal = "PInt 1" and lhs = "Column None ''a'' None"]
      simple_condition_builder_literal_contract
      [where I = example_env and op = "PStr ''=''" and f = "''equals''"
         and literal = "PList [PInt 1]" and lhs = "Column None ''a'' None"]
      simple_condition_builder_literal_contract
      [where I = example_env and op = "PStr ''IN''" and f = "''in''"
         and literal = "PInt 1" and lhs = "Column None ''a'' None"]
      ops
    by (simp add: simple_condition_builder_def)
qed

section \<open>Leaves and the depth limit\<close>

text \<open>
  C6. At a depth greater than 1, a non-empty input that \<^verbatim>\<open>is_condition\<close> rejects makes
  \<^verbatim>\<open>parse_conditions\<close> raise \<^verbatim>\<open>InvalidConditionException\<close> with that input. In particular
  a top-level sequence whose first OR group starts with a non-empty element that is not
  a leaf (three levels of nesting, no leaf by depth 1) raises it with that element.
\<close>

theorem depth_violation_raises_InvalidCondition:
  "(py_truthy conditions \<and> 1 < depth \<and> is_condition I conditions = Inr False \<longrightarrow>
      parse_conditions P I ob ab orb ub sb ds conditions aj depth =
        Inl (InvalidConditionException conditions)) \<and>
   (py_iter toplevel = Inr (or_group # or_groups) \<and> is_condition I or_group = Inr False \<and>
    py_iter or_group = Inr (inner # inners) \<and> py_truthy inner \<and> is_condition I inner = Inr False \<longrightarrow>
      parse_conditions P I ob ab orb ub sb ds toplevel aj 0 = Inl (InvalidConditionException inner))"
proof (intro conjI impI)
  assume "py_truthy conditions \<and> 1 < depth \<and> is_condition I conditions = Inr False"
  then show "parse_conditions P I ob ab orb ub sb ds conditions aj depth =
        Inl (InvalidConditionException conditions)"
    by (simp add: parse_conditions_invalid)
next
  assume a: "py_iter toplevel = Inr (or_group # or_groups) \<and> is_condition I or_group = Inr False \<and>
    py_iter or_group = Inr (inner # inners) \<and> py_truthy inner \<and> is_condition I inner = Inr False"
  then have inner:
    "parse_conditions P I ob ab orb ub sb ds inner aj (Suc (Suc 0)) = Inl (InvalidConditionException inner)"
    by (simp add: parse_conditions_invalid)
  from a have "py_truthy or_group" by (auto dest: py_iter_Cons_truthy)
  with a inner have or_group:
    "parse_conditions P I ob ab orb ub sb ds or_group aj (Suc 0) = Inl (InvalidConditionException inner)"
    by (simp add: parse_conditions_or_group)
  from a have "py_truthy toplevel" by (auto dest: py_iter_Cons_truthy)
  with a or_group show
    "parse_conditions P I ob ab orb ub sb ds toplevel aj 0 = Inl (InvalidConditionException inner)"
    by (simp add: parse_conditions_top)
qed

theorem depth_violation_raises_InvalidCondition_witness:
  "parse_conditions Expression_protocol example_env (operand_builder example_env)
       (and_builder example_env) (or_builder example_env)
       (unpack_array_condition_builder example_env) (simple_condition_builder example_env)
       example_dataset (PList [PTuple [PStr ''a'', PStr ''='', PInt 1]]) None 2 =
     Inl (InvalidConditionException (PList [PTuple [PStr ''a'', PStr ''='', PInt 1]])) \<and>
   parse_conditions Expression_protocol example_env (operand_builder example_env)
       (and_builder example_env) (or_builder example_env)
       (unpack_array_condition_builder example_env) (simple_condition_builder example_env)
       example_dataset (PList [PList [PList [PTuple [PStr ''a'', PStr ''='', PInt 1]]]]) None 0 =
     Inl (InvalidConditionException (PList [PTuple [PStr ''a'', PStr ''='', PInt 1]]))"
  using depth_violation_raises_InvalidCondition
    [where conditions = "PList [PTuple [PStr ''a'', PStr ''='', PInt 1]]" and depth = 2
       and I = example_env
       and toplevel = "PList [PList [PList [PTuple [PStr ''a'', PStr ''='', PInt 1]]]]"
       and or_group = "PList [PList [PTuple [PStr ''a'', PStr ''='', PInt 1]]]" and or_groups = "[]"
       and inner = "PList [PTuple [PStr ''a'', PStr ''='', PInt 1]]" and inners = "[]"
       and P = Expression_protocol and ob = "operand_builder example_env"
       and ab = "and_builder example_env" and orb = "or_builder example_env"
       and ub = "unpack_array_condition_builder example_env"
       and sb = "simple_condition_builder example_env" and ds = example_dataset and aj = None]
  by (simp add: example_env_def)

text \<open>
  C4, as the code has it. At any depth from 1 on, a non-empty input that \<^verbatim>\<open>is_condition\<close>
  accepts (a 3-tuple \<^verbatim>\<open>(lhs, op, rhs)\<close> is non-empty) is compiled by the leaf branch alone:
  the result is that of \<open>parse_simple_condition\<close>, whatever the depth, and neither the
  AND nor the OR builder takes part. At depth 0 the test \<^verbatim>\<open>depth == 0\<close> comes first and
  the input is iterated as a sequence of OR groups.
\<close>

theorem leaf_at_depth_ge_1:
  "(py_truthy conditions \<and> is_condition I conditions = Inr True \<and> 1 \<le> depth \<longrightarrow>
      parse_conditions P I ob ab orb ub sb ds conditions aj depth =
        parse_simple_condition ob ub sb ds conditions aj \<and>
      parse_conditions P I ob ab orb ub sb ds conditions aj depth =
        parse_conditions P I ob ab orb ub sb ds conditions aj 1) \<and>
   (is_condition I (PTuple [lhs, op, rhs]) = Inr True \<and> 1 \<le> depth \<longrightarrow>
      parse_conditions P I ob ab orb ub sb ds (PTuple [lhs, op, rhs]) aj depth =
        parse_simple_condition ob ub sb ds (PTuple [lhs, op, rhs]) aj)"
  by (simp add: parse_conditions_leaf)

theorem leaf_at_depth_ge_1_witness:
  "parse_conditions Expression_protocol example_env (operand_builder example_env)
       (and_builder example_env) (or_builder example_env)
       (unpack_array_condition_builder example_env) (simple_condition_builder example_env)
       example_dataset (PTuple [PStr ''a'', PStr ''='', PInt 1]) None 7 =
     Inr (Some (FunctionCall None ''equals'' [Column None ''a'' None, Literal None (PInt 1)]))"
proof -
  have "parse_simple_condition (operand_builder example_env)
       (unpack_array_condition_builder example_env) (simple_condition_builder example_env)
       example_dataset (PTuple [PStr ''a'', PStr ''='', PInt 1]) None =
     Inr (Some (FunctionCall None ''equals'' [Column None ''a'' None, Literal None (PInt 1)]))"
    by code_simp
  moreover have "is_condition example_env (PTuple [PStr ''a'', PStr ''='', PInt 1]) = Inr True"
    by code_simp
  ultimately show ?thesis
    using leaf_at_depth_ge_1
      [where conditions = "PTuple [PStr ''a'', PStr ''='', PInt 1]" and I = example_env and depth = 7
         and P = Expression_protocol and ob = "operand_builder example_env"
         and ab = "and_builder example_env" and orb = "or_builder example_env"
         and ub = "unpack_array_condition_builder example_env"
         and sb = "simple_condition_builder example_env" and ds = example_dataset and aj = None]
    by simp
qed

text \<open>
  The claim as stated (a leaf at any depth from 0 on) fails at depth 0: the tuple
  \<^verbatim>\<open>("a", "=", 1)\<close> is a condition, yet as the top-level input it is iterated, its first
  element \<^verbatim>\<open>"a"\<close> is taken for an OR group and the character \<^verbatim>\<open>"a"\<close> inside it for a
  malformed leaf, while the leaf branch would have compiled it to \<^verbatim>\<open>equals(a, 1)\<close>.
\<close>

theorem top_level_tuple_is_not_a_leaf:
  "is_condition example_env (PTuple [PStr ''a'', PStr ''='', PInt 1]) = Inr True \<and>
   parse_conditions Expression_protocol example_env (operand_builder example_env)
       (and_builder example_env) (or_builder example_env)
       (unpack_array_condition_builder example_env) (simple_condition_builder example_env)
       example_dataset (PTuple [PStr ''a'', PStr ''='', PInt 1]) None 0 =
     Inl (InvalidConditionException (PStr ''a'')) \<and>
   parse_simple_condition (operand_builder example_env)
       (unpack_array_condition_builder example_env) (simple_condition_builder example_env)
       example_dataset (PTuple [PStr ''a'', PStr ''='', PInt 1]) None =
     Inr (Some (FunctionCall None ''equals'' [Column None ''a'' None, Literal None (PInt 1)]))"
  by code_simp

section \<open>Sorting of IN literals\<close>







subsection \<open>The comparison is a linear order where it returns\<close>


lemma py_lt_asym:
  "py_lt a b = Inr True \<Longrightarrow> py_lt b a = Inr False"
  "py_lt_seq xs ys = Inr True \<Longrightarrow> py_lt_seq ys xs = Inr False"
  by (induction a b and xs ys rule: py_lt_py_lt_seq.induct) (auto split: if_splits)


lemma py_lt_irrefl:
  "py_lt a a \<noteq> Inr True"
  using py_lt_asym(1)[of a a] by auto
















section \<open>The array-unpack rule\<close>

text \<open>
  The leaf branch and the array-unpack builder, as the code has them. A leaf whose
  left-hand side names a column of Array type, whose array-join base name differs from
  the active array-join and whose right-hand side is a scalar is built by the
  array-unpack builder; every other leaf (also one whose column's base name is the
  active array-join) is built by the simple-condition builder, from the sorted literal.
  For an operator that the mapping knows and that is neither \<^verbatim>\<open>IN\<close> nor \<^verbatim>\<open>NOT IN\<close>, the
  array-unpack builder returns \<^verbatim>\<open>arrayExists(x -> assumeNotNull(f(x, literal)), lhs)\<close> when
  the operator is positive and \<^verbatim>\<open>arrayAll(...)\<close> otherwise. With \<^verbatim>\<open>IN\<close> or \<^verbatim>\<open>NOT IN\<close> the
  assertion of \<^verbatim>\<open>preprocess_literal\<close> fails, the literal being a scalar there.
\<close>

theorem array_unpack_dispatch:
  "(process_condition ds c = Inr (PStr name, op, lit) \<and> columns ds name = Some col \<and>
    is_Array (type col) \<and> base_name col \<noteq> aj \<and> \<not> is_list_or_tuple lit \<longrightarrow>
      parse_simple_condition ob ub sb ds c aj =
        (case ob (PStr name) of Inl e \<Rightarrow> Inl e | Inr l \<Rightarrow> map_sum id Some (ub l op lit))) \<and>
   (process_condition ds c = Inr (lhs, op, lit0) \<and> sort_in_literal op lit0 = Inr lit' \<and>
    \<not> array_unpack_rule ds aj lhs lit' \<longrightarrow>
      parse_simple_condition ob ub sb ds c aj =
        (case ob lhs of Inl e \<Rightarrow> Inl e | Inr l \<Rightarrow> map_sum id Some (sb l op lit'))) \<and>
   (columns ds name = Some col \<and> base_name col = aj \<longrightarrow> \<not> array_unpack_rule ds aj (PStr name) lit) \<and>
   (operator_function I op = Inr f \<and> \<not> is_list_or_tuple lit \<and>
    op \<noteq> PStr ''IN'' \<and> op \<noteq> PStr ''NOT IN'' \<longrightarrow>
      unpack_array_condition_builder I l op lit =
        Inr (FunctionCall None
               (if op \<in> set (map PStr (POSITIVE_OPERATORS I)) then ''arrayExists'' else ''arrayAll'')
               [Lambda None [''x'']
                  (FunctionCall None ''assumeNotNull''
                     [FunctionCall None f [Argument None ''x'', Literal None lit]]),
                l])) \<and>
   (\<not> is_list_or_tuple lit \<and> (op = PStr ''IN'' \<or> op = PStr ''NOT IN'') \<longrightarrow>
      (\<exists>e. unpack_array_condition_builder I l op lit = Inl e)) \<and>
   (operator_function I op = Inr f \<and> \<not> is_list_or_tuple lit \<and>
    (op = PStr ''IN'' \<or> op = PStr ''NOT IN'') \<longrightarrow>
      unpack_array_condition_builder I l op lit = Inl AssertionError) \<and>
   (array_unpack_rule ds aj lhs lit \<longleftrightarrow>
      (\<exists>name col. lhs = PStr name \<and> columns ds name = Some col \<and> is_Array (type col) \<and>
         base_name col \<noteq> aj \<and> \<not> is_list_or_tuple lit))"
proof (intro conjI impI)
  assume a: "process_condition ds c = Inr (PStr name, op, lit) \<and> columns ds name = Some col \<and>
    is_Array (type col) \<and> base_name col \<noteq> aj \<and> \<not> is_list_or_tuple lit"
  then have "array_unpack_rule ds aj (PStr name) lit"
    by (simp add: array_unpack_rule_def)
  with a show "parse_simple_condition ob ub sb ds c aj =
        (case ob (PStr name) of Inl e \<Rightarrow> Inl e | Inr l \<Rightarrow> map_sum id Some (ub l op lit))"
    by (simp add: parse_simple_condition_eq[where lit = lit] sort_in_literal_scalar)
next
  assume "process_condition ds c = Inr (lhs, op, lit0) \<and> sort_in_literal op lit0 = Inr lit' \<and>
    \<not> array_unpack_rule ds aj lhs lit'"
  then show "parse_simple_condition ob ub sb ds c aj =
        (case ob lhs of Inl e \<Rightarrow> Inl e | Inr l \<Rightarrow> map_sum id Some (sb l op lit'))"
    by (simp add: parse_simple_condition_eq[where lit = lit'])
next
  assume "columns ds name = Some col \<and> base_name col = aj"
  then show "\<not> array_unpack_rule ds aj (PStr name) lit"
    by (simp add: array_unpack_rule_def)
next
  assume "operator_function I op = Inr f \<and> \<not> is_list_or_tuple lit \<and>
    op \<noteq> PStr ''IN'' \<and> op \<noteq> PStr ''NOT IN''"
  then show "unpack_array_condition_builder I l op lit =
        Inr (FunctionCall None
               (if op \<in> set (map PStr (POSITIVE_OPERATORS I)) then ''arrayExists'' else ''arrayAll'')
               [Lambda None [''x'']
                  (FunctionCall None ''assumeNotNull''
                     [FunctionCall None f [Argument None ''x'', Literal None lit]]),
                l])"
    by (simp add: unpack_array_condition_builder_def preprocess_literal_def Let_def)
next
  assume "\<not> is_list_or_tuple lit \<and> (op = PStr ''IN'' \<or> op = PStr ''NOT IN'')"
  then show "\<exists>e. unpack_array_condition_builder I l op lit = Inl e"
    by (auto simp add: unpack_array_condition_builder_def preprocess_literal_def Let_def
             split: sum.splits)
next
  assume "operator_function I op = Inr f \<and> \<not> is_list_or_tuple lit \<and>
    (op = PStr ''IN'' \<or> op = PStr ''NOT IN'')"
  then show "unpack_array_condition_builder I l op lit = Inl AssertionError"
    by (auto simp add: unpack_array_condition_builder_def preprocess_literal_def Let_def)
next
  show "array_unpack_rule ds aj lhs lit \<longleftrightarrow>
      (\<exists>name col. lhs = PStr name \<and> columns ds name = Some col \<and> is_Array (type col) \<and>
         base_name col \<noteq> aj \<and> \<not> is_list_or_tuple lit)"
    by (auto simp: array_unpack_rule_def split: pyval.splits option.splits)
qed

theorem array_unpack_dispatch_witness:
  "parse_conditions_to_expr example_env (PList [PTuple [PStr ''tags'', PStr ''='', PStr ''x'']])
       example_dataset None =
     Inr (Some (FunctionCall None ''arrayExists''
       [Lambda None [''x'']
          (FunctionCall None ''assumeNotNull''
             [FunctionCall None ''equals'' [Argument None ''x'', Literal None (PStr ''x'')]]),
        Column None ''tags'' None])) \<and>
   parse_simple_condition (operand_builder example_env) (unpack_array_condition_builder example_env)
       (simple_condition_builder example_env) example_dataset
       (PTuple [PStr ''tags'', PStr ''!='', PStr ''x'']) None =
     Inr (Some (FunctionCall None ''arrayAll''
       [Lambda None [''x'']
          (FunctionCall None ''assumeNotNull''
             [FunctionCall None ''notEquals'' [Argument None ''x'', Literal None (PStr ''x'')]]),
        Column None ''tags'' None])) \<and>
   parse_simple_condition (operand_builder example_env) (unpack_array_condition_builder example_env)
       (simple_condition_builder example_env) example_dataset
       (PTuple [PStr ''tags'', PStr ''='', PStr ''x'']) (Some ''tags'') =
     Inr (Some (FunctionCall None ''equals'' [Column None ''tags'' None, Literal None (PStr ''x'')]))"
proof -
  let ?col = "\<lparr> type = Array (Scalar ''String''), base_name = Some ''tags'' \<rparr>"
  have col: "columns example_dataset ''tags'' = Some ?col"
    by (simp add: example_dataset_def)
  have ops: "operator_function example_env (PStr ''='') = Inr ''equals''"
    "operator_function example_env (PStr ''!='') = Inr ''notEquals''"
    by code_simp+
  have ob: "operand_builder example_env (PStr ''tags'') = Inr (Column None ''tags'' None)"
    by code_simp
  have pos: "PStr ''='' \<in> set (map PStr (POSITIVE_OPERATORS example_env))"
    "PStr ''!='' \<notin> set (map PStr (POSITIVE_OPERATORS example_env))"
    by (simp_all add: example_env_def)
  have top: "parse_conditions_to_expr example_env (PList [PTuple [PStr ''tags'', PStr ''='', PStr ''x'']])
       example_dataset None =
     parse_simple_condition (operand_builder example_env) (unpack_array_condition_builder example_env)
       (simple_condition_builder example_env) example_dataset
       (PTuple [PStr ''tags'', PStr ''='', PStr ''x'']) None"
    by code_simp
  note d = array_unpack_dispatch
      [where ds = example_dataset and name = "''tags''" and lit = "PStr ''x''" and col = ?col
         and ob = "operand_builder example_env" and ub = "unpack_array_condition_builder example_env"
         and sb = "simple_condition_builder example_env" and I = example_env
         and l = "Column None ''tags'' None" and lhs = "PStr ''tags''" and ?lit0.0 = "PStr ''x''"
         and lit' = "PStr ''x''"]
  have 1: "parse_simple_condition (operand_builder example_env) (unpack_array_condition_builder example_env)
       (simple_condition_builder example_env) example_dataset
       (PTuple [PStr ''tags'', PStr ''='', PStr ''x'']) None =
     Inr (Some (FunctionCall None ''arrayExists''
       [Lambda None [''x'']
          (FunctionCall None ''assumeNotNull''
             [FunctionCall None ''equals'' [Argument None ''x'', Literal None (PStr ''x'')]]),
        Column None ''tags'' None]))"
    using d[where c = "PTuple [PStr ''tags'', PStr ''='', PStr ''x'']" and op = "PStr ''=''"
              and aj = None and f = "''equals''"] col ops ob pos
    by (simp add: example_dataset_def)
  have 2: "parse_simple_condition (operand_builder example_env) (unpack_array_condition_builder example_env)
       (simple_condition_builder example_env) example_dataset
       (PTuple [PStr ''tags'', PStr ''!='', PStr ''x'']) None =
     Inr (Some (FunctionCall None ''arrayAll''
       [Lambda None [''x'']
          (FunctionCall None ''assumeNotNull''
             [FunctionCall None ''notEquals'' [Argument None ''x'', Literal None (PStr ''x'')]]),
        Column None ''tags'' None]))"
    using d[where c = "PTuple [PStr ''tags'', PStr ''!='', PStr ''x'']" and op = "PStr ''!=''"
              and aj = None and f = "''notEquals''"] col ops ob pos
    by (simp add: example_dataset_def)
  have sb: "simple_condition_builder example_env (Column None ''tags'' None) (PStr ''='') (PStr ''x'') =
      Inr (FunctionCall None ''equals'' [Column None ''tags'' None, Literal None (PStr ''x'')])"
    by code_simp
  have 3: "parse_simple_condition (operand_builder example_env) (unpack_array_condition_builder example_env)
       (simple_condition_builder example_env) example_dataset
       (PTuple [PStr ''tags'', PStr ''='', PStr ''x'']) (Some ''tags'') =
     Inr (Some (FunctionCall None ''equals'' [Column None ''tags'' None, Literal None (PStr ''x'')]))"
    using d[where c = "PTuple [PStr ''tags'', PStr ''='', PStr ''x'']" and op = "PStr ''=''"
              and aj = "Some ''tags''" and f = "''equals''"] col ob sb
    by (simp add: example_dataset_def sort_in_literal_def)
  from top 1 2 3 show ?thesis by simp
qed

text \<open>
  C2. The claim, and the comment in \<^verbatim>\<open>parse_conditions\<close> that counts \<^verbatim>\<open>IN\<close> and \<^verbatim>\<open>NOT IN\<close>
  among the operators of the array path, ask for \<^verbatim>\<open>arrayExists(...)\<close> on a positive
  operator and \<^verbatim>\<open>arrayAll(...)\<close> otherwise. The code does not deliver this for \<^verbatim>\<open>IN\<close> and
  \<^verbatim>\<open>NOT IN\<close>: on the array column \<^verbatim>\<open>tags\<close>, with no active array-join, the conditions
  \<^verbatim>\<open>("tags", "IN", "x")\<close> and \<^verbatim>\<open>("tags", "NOT IN", "x")\<close> fall under the array-unpack rule,
  their operators have a function in the mapping (and \<^verbatim>\<open>IN\<close> is positive), and the
  compilation raises \<^verbatim>\<open>AssertionError\<close>.
\<close>

theorem array_unpack_IN_scalar_raises:
  "array_unpack_rule example_dataset None (PStr ''tags'') (PStr ''x'') \<and>
   PStr ''IN'' \<in> set (map PStr (POSITIVE_OPERATORS example_env)) \<and>
   operator_function example_env (PStr ''IN'') = Inr ''in'' \<and>
   operator_function example_env (PStr ''NOT IN'') = Inr ''notIn'' \<and>
   parse_conditions_to_expr example_env (PList [PTuple [PStr ''tags'', PStr ''IN'', PStr ''x'']])
       example_dataset None = Inl AssertionError \<and>
   parse_conditions_to_expr example_env (PList [PTuple [PStr ''tags'', PStr ''NOT IN'', PStr ''x'']])
       example_dataset None = Inl AssertionError"
  by code_simp

section \<open>Top-level deduplication\<close>

text \<open>
  C1. An empty or absent input compiles to \<^verbatim>\<open>None\<close> at every depth. At depth 0, when the
  sub-conditions compile (at depth 1) to the results \<open>ks\<close>, all of them hashable, the
  result is the AND builder applied to the results with duplicates removed, each kept
  at the place of its first occurrence (a later duplicate is neither entered again nor
  moved), and with \<^verbatim>\<open>None\<close> results dropped; for expression objects nothing but \<^verbatim>\<open>None\<close>
  is dropped. The AND builder of the AST returns \<^verbatim>\<open>None\<close> when nothing is left. Inside
  an OR group (depth 1) the results are OR-combined as they are, duplicates included.
\<close>

theorem top_level_dedup_and_combine:
  "(\<not> py_truthy conditions \<longrightarrow>
      parse_conditions P I ob ab orb ub sb ds conditions aj depth = Inr None) \<and>
   (py_iter conditions = Inr conds \<and> conds \<noteq> [] \<and>
    map (\<lambda>c. parse_conditions P I ob ab orb ub sb ds c aj 1) conds = map Inr ks \<and>
    (\<forall>s. Some s \<in> set ks \<longrightarrow> hashable P s) \<longrightarrow>
      parse_conditions P I ob ab orb ub sb ds conditions aj 0 = ab (if_s P (first_seen ks))) \<and>
   distinct (first_seen ks) \<and> set (first_seen ks) = set ks \<and>
   first_seen (ks @ [k]) = (if k \<in> set ks then first_seen ks else first_seen ks @ [k]) \<and>
   if_s P (None # ks) = if_s P ks \<and>
   if_s Expression_protocol ks'' = map the (filter (\<lambda>k. k \<noteq> None) ks'') \<and>
   and_builder I' [] = Inr None \<and>
   (py_iter or_group = Inr conds' \<and> conds' \<noteq> [] \<and> is_condition I or_group = Inr False \<and>
    map (\<lambda>c. parse_conditions P I ob ab orb ub sb ds c aj 2) conds' = map Inr ks' \<longrightarrow>
      parse_conditions P I ob ab orb ub sb ds or_group aj 1 = orb (if_s P ks'))"
proof (intro conjI impI)
  assume "\<not> py_truthy conditions"
  then show "parse_conditions P I ob ab orb ub sb ds conditions aj depth = Inr None"
    by (rule parse_conditions_falsy)
next
  assume a: "py_iter conditions = Inr conds \<and> conds \<noteq> [] \<and>
    map (\<lambda>c. parse_conditions P I ob ab orb ub sb ds c aj 1) conds = map Inr ks \<and>
    (\<forall>s. Some s \<in> set ks \<longrightarrow> hashable P s)"
  then have "py_truthy conditions"
    by (cases conds) (auto dest: py_iter_Cons_truthy)
  moreover from a have
    "OrderedDict_keys P (\<lambda>c. parse_conditions P I ob ab orb ub sb ds c aj (Suc 0)) conds [] =
       Inr (first_seen ks)"
    using OrderedDict_keys_results
      [of "\<lambda>c. parse_conditions P I ob ab orb ub sb ds c aj (Suc 0)" conds ks P "[]"]
    by simp
  ultimately show "parse_conditions P I ob ab orb ub sb ds conditions aj 0 = ab (if_s P (first_seen ks))"
    using a by (simp add: parse_conditions_top)
next
  assume a: "py_iter or_group = Inr conds' \<and> conds' \<noteq> [] \<and> is_condition I or_group = Inr False \<and>
    map (\<lambda>c. parse_conditions P I ob ab orb ub sb ds c aj 2) conds' = map Inr ks'"
  then have "py_truthy or_group"
    by (cases conds') (auto dest: py_iter_Cons_truthy)
  moreover from a have
    "generator_results (\<lambda>c. parse_conditions P I ob ab orb ub sb ds c aj (Suc (Suc 0))) conds' = Inr ks'"
    by (intro generator_results_results) (simp add: numeral_2_eq_2)
  ultimately have "parse_conditions P I ob ab orb ub sb ds or_group aj (Suc 0) = orb (if_s P ks')"
    using a by (simp add: parse_conditions_or_group)
  then show "parse_conditions P I ob ab orb ub sb ds or_group aj 1 = orb (if_s P ks')"
    by simp
qed (simp_all add: distinct_first_seen set_first_seen first_seen_snoc and_builder_def if_s_Expression)

theorem top_level_dedup_and_combine_witness:
  "parse_conditions_to_expr example_env (PList []) example_dataset None = Inr None \<and>
   parse_conditions_to_expr example_env PNone example_dataset None = Inr None \<and>
   parse_conditions_to_expr example_env
       (PList [PTuple [PStr ''a'', PStr ''='', PInt 1], PTuple [PStr ''b'', PStr ''='', PInt 2],
               PTuple [PStr ''a'', PStr ''='', PInt 1]])
       example_dataset None =
     Inr (Some (FunctionCall None ''AND''
       [FunctionCall None ''equals'' [Column None ''a'' None, Literal None (PInt 1)],
        FunctionCall None ''equals'' [Column None ''b'' None, Literal None (PInt 2)]])) \<and>
   parse_conditions Expression_protocol example_env (operand_builder example_env)
       (and_builder example_env) (or_builder example_env)
       (unpack_array_condition_builder example_env) (simple_condition_builder example_env)
       example_dataset
       (PList [PTuple [PStr ''a'', PStr ''='', PInt 1], PTuple [PStr ''a'', PStr ''='', PInt 1]]) None 1 =
     Inr (Some (FunctionCall None ''OR''
       [FunctionCall None ''equals'' [Column None ''a'' None, Literal None (PInt 1)],
        FunctionCall None ''equals'' [Column None ''a'' None, Literal None (PInt 1)]]))"
proof -
  let ?cA = "PTuple [PStr ''a'', PStr ''='', PInt 1]"
  let ?cB = "PTuple [PStr ''b'', PStr ''='', PInt 2]"
  let ?eA = "FunctionCall None ''equals'' [Column None ''a'' None, Literal None (PInt 1)]"
  let ?eB = "FunctionCall None ''equals'' [Column None ''b'' None, Literal None (PInt 2)]"
  let ?parse = "parse_conditions Expression_protocol example_env (operand_builder example_env)
       (and_builder example_env) (or_builder example_env)
       (unpack_array_condition_builder example_env) (simple_condition_builder example_env)
       example_dataset"
  have leaves: "?parse ?cA None 1 = Inr (Some ?eA)" "?parse ?cB None 1 = Inr (Some ?eB)"
    "?parse ?cA None 2 = Inr (Some ?eA)"
    by code_simp+
  have notleaf: "is_condition example_env (PList [?cA, ?cA]) = Inr False"
    by code_simp
  note t = top_level_dedup_and_combine
      [where P = Expression_protocol and I = example_env and ob = "operand_builder example_env"
         and ab = "and_builder example_env" and orb = "or_builder example_env"
         and ub = "unpack_array_condition_builder example_env"
         and sb = "simple_condition_builder example_env" and ds = example_dataset and aj = None
         and depth = 0]
  have 1: "?parse (PList []) None 0 = Inr None" "?parse PNone None 0 = Inr None"
    using t[where conditions = "PList []"] t[where conditions = PNone] by simp_all
  have 2: "?parse (PList [?cA, ?cB, ?cA]) None 0 = and_builder example_env [?eA, ?eB]"
    using t[where conditions = "PList [?cA, ?cB, ?cA]" and conds = "[?cA, ?cB, ?cA]"
              and ks = "[Some ?eA, Some ?eB, Some ?eA]"] leaves
    by (simp add: Expression_protocol_def)
  have 3: "?parse (PList [?cA, ?cA]) None 1 = or_builder example_env [?eA, ?eA]"
    using t[where or_group = "PList [?cA, ?cA]" and conds' = "[?cA, ?cA]"
              and ks' = "[Some ?eA, Some ?eA]"] leaves notleaf
    by (simp add: Expression_protocol_def)
  have 4: "and_builder example_env [?eA, ?eB] = Inr (Some (FunctionCall None ''AND'' [?eA, ?eB]))"
    "or_builder example_env [?eA, ?eA] = Inr (Some (FunctionCall None ''OR'' [?eA, ?eA]))"
    by code_simp+
  from 1 2 3 4 show ?thesis
    by (simp add: parse_conditions_to_expr_def)
qed

section \<open>Facts about the query pipeline\<close>

lemma execute_entity_processors_trace:
  "execute_entity_processors eps req tr = (None, req', tr') \<Longrightarrow>
   tr' = tr @ map (\<lambda>p. EntityProcessor (fst p)) eps"
proof (induction eps arbitrary: req tr)
  case Nil
  then show ?case by simp
next
  case (Cons p eps)
  obtain n f where p: "p = (n, f)" by (cases p)
  with Cons.prems obtain r1 where "f req = (None, r1)"
    "execute_entity_processors eps r1 (tr @ [EntityProcessor n]) = (None, req', tr')"
    by (auto split: prod.splits option.splits)
  with Cons.IH p show ?case by fastforce
qed

lemma execute_entity_processors_raises:
  "execute_entity_processors eps req tr = (Some e, req', tr') \<Longrightarrow>
   \<exists>k < length eps. tr' = tr @ map (\<lambda>p. EntityProcessor (fst p)) (take (Suc k) eps)"
proof (induction eps arbitrary: req tr)
  case Nil
  then show ?case by simp
next
  case (Cons p eps)
  obtain n f where p: "p = (n, f)" by (cases p)
  obtain err r1 where f: "f req = (err, r1)" by (cases "f req")
  show ?case
  proof (cases err)
    case None
    with Cons.prems p f have
      "execute_entity_processors eps r1 (tr @ [EntityProcessor n]) = (Some e, req', tr')"
      by simp
    from Cons.IH[OF this] obtain k where "k < length eps"
      "tr' = (tr @ [EntityProcessor n]) @ map (\<lambda>p. EntityProcessor (fst p)) (take (Suc k) eps)"
      by blast
    with p have "Suc k < length (p # eps) \<and>
        tr' = tr @ map (\<lambda>p. EntityProcessor (fst p)) (take (Suc (Suc k)) (p # eps))"
      by simp
    then show ?thesis by blast
  next
    case (Some e')
    with Cons.prems p f have "tr' = tr @ [EntityProcessor n]" by simp
    with p have "0 < length (p # eps) \<and>
        tr' = tr @ map (\<lambda>p. EntityProcessor (fst p)) (take (Suc 0) (p # eps))"
      by simp
    then show ?thesis by blast
  qed
qed

lemma execute_query_plan_processors_loop_trace:
  "execute_query_plan_processors_loop pps q st tr = (None, q', tr') \<Longrightarrow>
   tr' = tr @ map (\<lambda>p. PlanProcessor (fst p)) pps"
proof (induction pps arbitrary: q tr)
  case Nil
  then show ?case by simp
next
  case (Cons p pps)
  obtain n f where p: "p = (n, f)" by (cases p)
  with Cons.prems obtain q1 where "f q st = (None, q1)"
    "execute_query_plan_processors_loop pps q1 st (tr @ [PlanProcessor n]) = (None, q', tr')"
    by (auto split: prod.splits option.splits)
  with Cons.IH p show ?case by fastforce
qed

lemma execute_success:
  assumes "execute eps self = (Inr res, self')"
  shows "\<exists>r tr plan q' tr'.
           execute_entity_processors eps (self_request self) (trace self) = (None, r, tr) \<and>
           self_query_plan_builder self r = Inr plan \<and>
           execute_query_plan_processors_loop (plan_processors plan) (query plan) (settings r)
             (tr @ [BuildPlan]) = (None, q', tr') \<and>
           execution_strategy plan q' (settings r) (self_runner self) = Inr res \<and>
           self' = self\<lparr>self_request := r, self_query_plan := Some (plan\<lparr>query := q'\<rparr>),
                        trace := tr' @ [ExecutionStrategy q']\<rparr>"
  using assms
  by (auto simp: execute_def execute_query_plan_processors_def Let_def
           split: prod.splits option.splits sum.splits)

lemmas example_pipeline_defs =
  example_pipeline_def SimplePipeline_init_def example_request_def example_plan_def
  P1_def P2_def P3_def P1_raising_def P1_once_def

text \<open>
  C5. With the entity processors \<open>[P1, P2]\<close> and a plan whose processors are \<open>[P3]\<close>,
  \<open>execute\<close> extends the trace by \<open>P1, P2, build_plan, P3, execution strategy\<close>, in this
  order and with one \<open>build_plan\<close>, when no stage raises; when a stage raises, the trace
  ends with that stage and the exception is the result, so that no later stage has run.
  For any lists of processors, a successful \<open>execute\<close> has invoked all entity
  processors in order, then \<open>build_plan\<close> once, then all plan processors in order, then
  the execution strategy; and an entity processor that raises leaves a trace of entity
  processors only.
\<close>

theorem execute_invocation_order:
  "(p1 (self_request self) = (Some e, r1) \<longrightarrow>
      execute [(n1, p1), (n2, p2)] self =
        (Inl e, self\<lparr>self_request := r1, trace := trace self @ [EntityProcessor n1]\<rparr>)) \<and>
   (p1 (self_request self) = (None, r1) \<and> p2 r1 = (Some e, r2) \<longrightarrow>
      execute [(n1, p1), (n2, p2)] self =
        (Inl e, self\<lparr>self_request := r2,
                       trace := trace self @ [EntityProcessor n1, EntityProcessor n2]\<rparr>)) \<and>
   (p1 (self_request self) = (None, r1) \<and> p2 r1 = (None, r2) \<and>
    self_query_plan_builder self r2 = Inl e \<longrightarrow>
      execute [(n1, p1), (n2, p2)] self =
        (Inl e, self\<lparr>self_request := r2,
                       trace := trace self @ [EntityProcessor n1, EntityProcessor n2, BuildPlan]\<rparr>)) \<and>
   (p1 (self_request self) = (None, r1) \<and> p2 r1 = (None, r2) \<and>
    self_query_plan_builder self r2 = Inr plan \<and> plan_processors plan = [(n3, p3)] \<and>
    p3 (query plan) (settings r2) = (Some e, q') \<longrightarrow>
      execute [(n1, p1), (n2, p2)] self =
        (Inl e, self\<lparr>self_request := r2, self_query_plan := Some (plan\<lparr>query := q'\<rparr>),
                       trace := trace self @
                         [EntityProcessor n1, EntityProcessor n2, BuildPlan, PlanProcessor n3]\<rparr>)) \<and>
   (p1 (self_request self) = (None, r1) \<and> p2 r1 = (None, r2) \<and>
    self_query_plan_builder self r2 = Inr plan \<and> plan_processors plan = [(n3, p3)] \<and>
    p3 (query plan) (settings r2) = (None, q') \<longrightarrow>
      execute [(n1, p1), (n2, p2)] self =
        (execution_strategy plan q' (settings r2) (self_runner self),
         self\<lparr>self_request := r2, self_query_plan := Some (plan\<lparr>query := q'\<rparr>),
              trace := trace self @
                [EntityProcessor n1, EntityProcessor n2, BuildPlan, PlanProcessor n3,
                 ExecutionStrategy q']\<rparr>)) \<and>
   (execute eps self = (Inr res, self') \<longrightarrow>
      (\<exists>built qx. self_query_plan_builder self (self_request self') = Inr built \<and>
         trace self' =
           trace self @ map (\<lambda>p. EntityProcessor (fst p)) eps @ [BuildPlan] @
           map (\<lambda>p. PlanProcessor (fst p)) (plan_processors built) @ [ExecutionStrategy qx])) \<and>
   (execute_entity_processors eps (self_request self) (trace self) = (Some e, r, tr) \<longrightarrow>
      execute eps self = (Inl e, self\<lparr>self_request := r, trace := tr\<rparr>) \<and>
      (\<exists>k < length eps. tr = trace self @ map (\<lambda>p. EntityProcessor (fst p)) (take (Suc k) eps)))"
proof -
  have general: "execute eps self = (Inr res, self') \<longrightarrow>
      (\<exists>built qx. self_query_plan_builder self (self_request self') = Inr built \<and>
         trace self' =
           trace self @ map (\<lambda>p. EntityProcessor (fst p)) eps @ [BuildPlan] @
           map (\<lambda>p. PlanProcessor (fst p)) (plan_processors built) @ [ExecutionStrategy qx])"
  proof
    assume "execute eps self = (Inr res, self')"
    from execute_success[OF this] obtain r tr built qx tr' where
      h: "execute_entity_processors eps (self_request self) (trace self) = (None, r, tr)"
         "self_query_plan_builder self r = Inr built"
         "execute_query_plan_processors_loop (plan_processors built) (query built) (settings r)
            (tr @ [BuildPlan]) = (None, qx, tr')"
         "self' = self\<lparr>self_request := r, self_query_plan := Some (built\<lparr>query := qx\<rparr>),
                       trace := tr' @ [ExecutionStrategy qx]\<rparr>"
      by blast
    from execute_entity_processors_trace[OF h(1)] execute_query_plan_processors_loop_trace[OF h(3)]
    have "trace self' =
           trace self @ map (\<lambda>p. EntityProcessor (fst p)) eps @ [BuildPlan] @
           map (\<lambda>p. PlanProcessor (fst p)) (plan_processors built) @ [ExecutionStrategy qx]"
      using h(4) by simp
    moreover have "self_query_plan_builder self (self_request self') = Inr built"
      using h(2,4) by simp
    ultimately show "\<exists>built qx. self_query_plan_builder self (self_request self') = Inr built \<and>
         trace self' =
           trace self @ map (\<lambda>p. EntityProcessor (fst p)) eps @ [BuildPlan] @
           map (\<lambda>p. PlanProcessor (fst p)) (plan_processors built) @ [ExecutionStrategy qx]"
      by blast
  qed
  have aborted: "execute_entity_processors eps (self_request self) (trace self) = (Some e, r, tr) \<longrightarrow>
      execute eps self = (Inl e, self\<lparr>self_request := r, trace := tr\<rparr>) \<and>
      (\<exists>k < length eps. tr = trace self @ map (\<lambda>p. EntityProcessor (fst p)) (take (Suc k) eps))"
    by (auto simp: execute_def dest: execute_entity_processors_raises)
  show ?thesis
    by (intro conjI general aborted)
       (simp_all add: execute_def execute_query_plan_processors_def Let_def)
qed

theorem execute_invocation_order_witness:
  "fst (execute [P1, P2] example_pipeline) = Inr ''result of query processed'' \<and>
   trace (snd (execute [P1, P2] example_pipeline)) =
     [EntityProcessor ''P1'', EntityProcessor ''P2'', BuildPlan, PlanProcessor ''P3'',
      ExecutionStrategy ''query processed''] \<and>
   fst (execute [P1_raising, P2] example_pipeline) = Inl (CollaboratorError ''P1'') \<and>
   trace (snd (execute [P1_raising, P2] example_pipeline)) = [EntityProcessor ''P1'']"
  using execute_invocation_order
      [where self = example_pipeline and ?n1.0 = "''P1''" and ?p1.0 = "snd P1" and ?n2.0 = "''P2''"
         and ?p2.0 = "snd P2" and ?r1.0 = "example_request\<lparr>raw_query := 1\<rparr>"
         and ?r2.0 = "example_request\<lparr>raw_query := 2\<rparr>" and plan = example_plan
         and ?n3.0 = "''P3''" and ?p3.0 = "snd P3" and q' = "''query processed''"]
    execute_invocation_order
      [where self = example_pipeline and ?n1.0 = "''P1''" and ?p1.0 = "snd P1_raising"
         and ?n2.0 = "''P2''" and ?p2.0 = "snd P2" and ?r1.0 = "example_request"
         and e = "CollaboratorError ''P1''"]
  by (simp add: example_pipeline_defs)

text \<open>
  C9. After a successful \<open>execute\<close> the property \<open>query_plan\<close> returns a plan; the
  query of that plan is the query the execution strategy was invoked with (the last
  event of the trace), the result is what that plan's strategy returned for it, and
  the plan is the one that the plan processors left behind when run on the plan that
  \<open>build_plan\<close> returned: the processed plan, not the plan as it was built.
\<close>

theorem query_plan_is_the_executed_plan:
  "execute eps self = (Inr res, self') \<longrightarrow>
     (\<exists>plan plan' tr tr'.
        query_plan self' = Inr plan' \<and>
        last (trace self') = ExecutionStrategy (query plan') \<and>
        execution_strategy plan' (query plan') (settings (self_request self')) (self_runner self') = Inr res \<and>
        self_query_plan_builder self (self_request self') = Inr plan \<and>
        execute_query_plan_processors plan (self_request self') tr = (None, plan', tr'))"
proof
  assume "execute eps self = (Inr res, self')"
  from execute_success[OF this] obtain r tr plan q' tr' where
    h: "execute_entity_processors eps (self_request self) (trace self) = (None, r, tr)"
       "self_query_plan_builder self r = Inr plan"
       "execute_query_plan_processors_loop (plan_processors plan) (query plan) (settings r)
          (tr @ [BuildPlan]) = (None, q', tr')"
       "execution_strategy plan q' (settings r) (self_runner self) = Inr res"
       "self' = self\<lparr>self_request := r, self_query_plan := Some (plan\<lparr>query := q'\<rparr>),
                     trace := tr' @ [ExecutionStrategy q']\<rparr>"
    by blast
  let ?plan' = "plan\<lparr>query := q'\<rparr>"
  have "query_plan self' = Inr ?plan'" using h(5) by (simp add: query_plan_def)
  moreover have "last (trace self') = ExecutionStrategy (query ?plan')" using h(5) by simp
  moreover have "execution_strategy ?plan' (query ?plan') (settings (self_request self')) (self_runner self') = Inr res"
    using h(4,5) by simp
  moreover have "self_query_plan_builder self (self_request self') = Inr plan" using h(2,5) by simp
  moreover have "execute_query_plan_processors plan (self_request self') (tr @ [BuildPlan]) = (None, ?plan', tr')"
    using h(3,5) by (simp add: execute_query_plan_processors_def)
  ultimately show "\<exists>plan plan' tr tr'.
        query_plan self' = Inr plan' \<and>
        last (trace self') = ExecutionStrategy (query plan') \<and>
        execution_strategy plan' (query plan') (settings (self_request self')) (self_runner self') = Inr res \<and>
        self_query_plan_builder self (self_request self') = Inr plan \<and>
        execute_query_plan_processors plan (self_request self') tr = (None, plan', tr')"
    by blast
qed

theorem query_plan_is_the_executed_plan_witness:
  "fst (execute [P1, P2] example_pipeline) = Inr ''result of query processed'' \<and>
   (\<exists>plan'. query_plan (snd (execute [P1, P2] example_pipeline)) = Inr plan' \<and>
      last (trace (snd (execute [P1, P2] example_pipeline))) = ExecutionStrategy (query plan')) \<and>
   map_sum id query (query_plan (snd (execute [P1, P2] example_pipeline))) = Inr ''query processed'' \<and>
   query example_plan = ''query''"
proof -
  have e: "execute [P1, P2] example_pipeline =
      (Inr ''result of query processed'', snd (execute [P1, P2] example_pipeline))"
    by (simp add: execute_def execute_query_plan_processors_def Let_def example_pipeline_defs)
  from query_plan_is_the_executed_plan[THEN mp, OF e]
  have "\<exists>plan'. query_plan (snd (execute [P1, P2] example_pipeline)) = Inr plan' \<and>
      last (trace (snd (execute [P1, P2] example_pipeline))) = ExecutionStrategy (query plan')"
    by blast
  moreover have "map_sum id query (query_plan (snd (execute [P1, P2] example_pipeline))) =
      Inr ''query processed''"
    by (simp add: execute_def execute_query_plan_processors_def Let_def query_plan_def
          example_pipeline_defs)
  moreover from e have "fst (execute [P1, P2] example_pipeline) = Inr ''result of query processed''"
    by (metis fst_conv)
  moreover have "query example_plan = ''query''"
    by (simp add: example_plan_def)
  ultimately show ?thesis by blast
qed

text \<open>
  C10, as the code has it. \<^verbatim>\<open>__init__\<close> does not create the attribute, so on a new
  pipeline the property raises \<^verbatim>\<open>AttributeError\<close>. An \<open>execute\<close> that is aborted by an
  entity processor or by \<open>build_plan\<close> leaves the attribute as it was: on a pipeline
  whose attribute was not yet assigned the property still raises afterwards. Once the
  entity processors and \<open>build_plan\<close> have returned, the attribute is assigned.
\<close>

theorem query_plan_unset_until_plan_built:
  "query_plan (SimplePipeline_init request runner builder) = Inl AttributeError \<and>
   (execute_entity_processors eps (self_request self) (trace self) = (Some e, r, tr) \<longrightarrow>
      fst (execute eps self) = Inl e \<and>
      self_query_plan (snd (execute eps self)) = self_query_plan self) \<and>
   (execute_entity_processors eps (self_request self) (trace self) = (None, r, tr) \<and>
    self_query_plan_builder self r = Inl e \<longrightarrow>
      fst (execute eps self) = Inl e \<and>
      self_query_plan (snd (execute eps self)) = self_query_plan self) \<and>
   (self_query_plan self = None \<and>
    (execute_entity_processors eps (self_request self) (trace self) = (Some e, r, tr) \<or>
     execute_entity_processors eps (self_request self) (trace self) = (None, r, tr) \<and>
     self_query_plan_builder self r = Inl e) \<longrightarrow>
      query_plan (snd (execute eps self)) = Inl AttributeError) \<and>
   (execute_entity_processors eps (self_request self) (trace self) = (None, r, tr) \<and>
    self_query_plan_builder self r = Inr plan \<longrightarrow>
      (\<exists>plan'. query_plan (snd (execute eps self)) = Inr plan'))"
  by (auto simp: execute_def query_plan_def SimplePipeline_init_def Let_def
           split: prod.splits option.splits sum.splits)

theorem query_plan_unset_until_plan_built_witness:
  "query_plan example_pipeline = Inl AttributeError \<and>
   fst (execute [P1_raising, P2] example_pipeline) = Inl (CollaboratorError ''P1'') \<and>
   query_plan (snd (execute [P1_raising, P2] example_pipeline)) = Inl AttributeError \<and>
   fst (execute [P1, P2] (example_pipeline\<lparr>self_query_plan_builder := (\<lambda>r. Inl (CollaboratorError ''build_plan''))\<rparr>)) =
     Inl (CollaboratorError ''build_plan'') \<and>
   query_plan (snd (execute [P1, P2]
       (example_pipeline\<lparr>self_query_plan_builder := (\<lambda>r. Inl (CollaboratorError ''build_plan''))\<rparr>))) =
     Inl AttributeError"
proof -
  let ?failing = "example_pipeline\<lparr>self_query_plan_builder := (\<lambda>r. Inl (CollaboratorError ''build_plan''))\<rparr>"
  have unset: "self_query_plan example_pipeline = None" "self_query_plan ?failing = None"
    by (simp_all add: example_pipeline_defs)
  have h1: "execute_entity_processors [P1_raising, P2] (self_request example_pipeline)
        (trace example_pipeline) =
      (Some (CollaboratorError ''P1''), example_request, [EntityProcessor ''P1''])"
    by (simp add: example_pipeline_defs)
  have h2: "execute_entity_processors [P1, P2] (self_request ?failing) (trace ?failing) =
      (None, example_request\<lparr>raw_query := 2\<rparr>, [EntityProcessor ''P1'', EntityProcessor ''P2''])"
    by (simp add: example_pipeline_defs)
  have h3: "self_query_plan_builder ?failing (example_request\<lparr>raw_query := 2\<rparr>) =
      Inl (CollaboratorError ''build_plan'')"
    by simp
  from query_plan_unset_until_plan_built
      [where request = example_request and runner = "''runner''"
         and builder = "\<lambda>r. Inr example_plan" and self = example_pipeline
         and eps = "[P1_raising, P2]" and e = "CollaboratorError ''P1''" and r = example_request
         and tr = "[EntityProcessor ''P1'']"]
    query_plan_unset_until_plan_built
      [where request = example_request and runner = "''runner''"
         and builder = "\<lambda>r. Inr example_plan"
         and self = ?failing and eps = "[P1, P2]" and e = "CollaboratorError ''build_plan''"
         and r = "example_request\<lparr>raw_query := 2\<rparr>"
         and tr = "[EntityProcessor ''P1'', EntityProcessor ''P2'']"]
    unset h1 h2 h3
  show ?thesis
    by (simp add: example_pipeline_def)
qed

text \<open>
  The claim as stated (after an aborted \<open>execute\<close> the property raises rather than
  returning a stale plan) fails on a pipeline that is executed twice: the first
  \<open>execute\<close> succeeds and assigns the plan, the second is aborted by its entity
  processor, and the property then returns the plan of the first.
\<close>

theorem stale_plan_after_aborted_execute:
  "fst (execute [P1_once] example_pipeline) = Inr ''result of query processed'' \<and>
   fst (execute [P1_once] (snd (execute [P1_once] example_pipeline))) = Inl (CollaboratorError ''P1'') \<and>
   trace (snd (execute [P1_once] (snd (execute [P1_once] example_pipeline)))) =
     [EntityProcessor ''P1'', BuildPlan, PlanProcessor ''P3'', ExecutionStrategy ''query processed'',
      EntityProcessor ''P1''] \<and>
   map_sum id query (query_plan (snd (execute [P1_once] (snd (execute [P1_once] example_pipeline))))) =
     Inr ''query processed''"
  by (simp add: execute_def execute_query_plan_processors_def Let_def query_plan_def
        example_pipeline_defs)

end
